theory Spec2Isabelle
  imports Complex_Main
begin

section \<open>Numbers, dates and notes\<close>

text \<open>
  The cook planner (\<^verbatim>\<open>apps/api/src/services/cookPlanner.ts\<close>) computes with
  JavaScript numbers and \<^verbatim>\<open>Date\<close> objects.  The embedding takes a number to be an
  exact rational, so every arithmetic step of the source is the same step on \<^typ>\<open>rat\<close>,
  and a \<^verbatim>\<open>Date\<close> to be its time value, an integer count of milliseconds since the
  epoch.  Division by zero (which JavaScript answers with an infinity or NaN) and time
  values beyond the range of \<^verbatim>\<open>Date\<close> are outside the embedding; the theorems that
  divide exclude a zero divisor by hypothesis.
\<close>

type_synonym number = rat

type_synonym Date = int

text \<open>\<^verbatim>\<open>Math.round\<close>: the nearest integer, a tie going up.\<close>

definition math_round :: "number \<Rightarrow> number" where
  "math_round x = of_int \<lfloor>x + 1 / 2\<rfloor>"

text \<open>\<^verbatim>\<open>new Date(x)\<close> drops the fraction of \<open>x\<close> (towards zero); \<^verbatim>\<open>getTime\<close> reads it back.\<close>

definition new_Date :: "number \<Rightarrow> Date" where
  "new_Date x = (if 0 \<le> x then \<lfloor>x\<rfloor> else \<lceil>x\<rceil>)"

definition getTime :: "Date \<Rightarrow> number" where
  "getTime d = of_int d"

text \<open>
  A note is a template literal: its literal pieces and the numbers interpolated between
  them, in order.  How a number is printed is left to the reader of the note.
\<close>

datatype piece = Lit string | Num number

type_synonym Note = "piece list"

section \<open>Enumerations and lookup tables\<close>

datatype SmokerType = PELLET | OFFSET | KAMADO | ELECTRIC | KETTLE

datatype MeatCut = BRISKET | PORK_SHOULDER | SPARE_RIBS | BABY_BACK_RIBS | BEEF_RIBS

datatype WrapMethod = NONE | BUTCHER_PAPER | FOIL

datatype Confidence = HIGH | MEDIUM | LOW

text \<open>The string value of a wrap method, as the enum declares it.\<close>

fun WrapMethod_value :: "WrapMethod \<Rightarrow> string" where
  "WrapMethod_value NONE = ''NONE''"
| "WrapMethod_value BUTCHER_PAPER = ''BUTCHER_PAPER''"
| "WrapMethod_value FOIL = ''FOIL''"

record MinMax =
  minR :: number
  maxR :: number

record CookTime = MinMax +
  perPound :: bool

fun BASE_COOK_TIMES :: "MeatCut \<Rightarrow> CookTime" where
  "BASE_COOK_TIMES BRISKET = \<lparr>minR = 60, maxR = 90, perPound = True\<rparr>"
| "BASE_COOK_TIMES PORK_SHOULDER = \<lparr>minR = 90, maxR = 120, perPound = True\<rparr>"
| "BASE_COOK_TIMES SPARE_RIBS = \<lparr>minR = 300, maxR = 360, perPound = False\<rparr>"
| "BASE_COOK_TIMES BABY_BACK_RIBS = \<lparr>minR = 240, maxR = 300, perPound = False\<rparr>"
| "BASE_COOK_TIMES BEEF_RIBS = \<lparr>minR = 360, maxR = 480, perPound = False\<rparr>"

record SmokerFactor =
  multiplier :: number
  varianceMultiplier :: number

fun SMOKER_MULTIPLIERS :: "SmokerType \<Rightarrow> SmokerFactor" where
  "SMOKER_MULTIPLIERS PELLET = \<lparr>multiplier = 90 / 100, varianceMultiplier = 8 / 10\<rparr>"
| "SMOKER_MULTIPLIERS OFFSET = \<lparr>multiplier = 115 / 100, varianceMultiplier = 13 / 10\<rparr>"
| "SMOKER_MULTIPLIERS KAMADO = \<lparr>multiplier = 95 / 100, varianceMultiplier = 85 / 100\<rparr>"
| "SMOKER_MULTIPLIERS ELECTRIC = \<lparr>multiplier = 1, varianceMultiplier = 1\<rparr>"
| "SMOKER_MULTIPLIERS KETTLE = \<lparr>multiplier = 110 / 100, varianceMultiplier = 12 / 10\<rparr>"

record StallConfig =
  startTempF :: number
  endTempF :: number
  durationMinutes :: MinMax
  wrapReductionFactor :: number
  affectedCuts :: "MeatCut list"

definition STALL_CONFIG :: StallConfig where
  "STALL_CONFIG =
     \<lparr>startTempF = 150, endTempF = 170,
      durationMinutes = \<lparr>minR = 60, maxR = 240\<rparr>,
      wrapReductionFactor = 5 / 10,
      affectedCuts = [BRISKET, PORK_SHOULDER]\<rparr>"

record Environmental =
  coldAmbient :: number
  hotAmbient :: number
  highAltitude :: number

definition ENVIRONMENTAL_THRESHOLDS :: Environmental where
  "ENVIRONMENTAL_THRESHOLDS = \<lparr>coldAmbient = 40, hotAmbient = 90, highAltitude = 5000\<rparr>"

definition ENVIRONMENTAL_MULTIPLIERS :: Environmental where
  "ENVIRONMENTAL_MULTIPLIERS =
     \<lparr>coldAmbient = 112 / 100, hotAmbient = 92 / 100, highAltitude = 110 / 100\<rparr>"

definition PHASE_NAMES_PREP :: string where
  "PHASE_NAMES_PREP = ''Prep & Trim''"

definition PHASE_NAMES_PREHEAT :: string where
  "PHASE_NAMES_PREHEAT = ''Preheat Smoker''"

definition PHASE_NAMES_SMOKE_1 :: string where
  "PHASE_NAMES_SMOKE_1 = ''Smoke Phase 1''"

definition PHASE_NAMES_STALL :: string where
  "PHASE_NAMES_STALL = ''Stall Window''"

definition PHASE_NAMES_WRAP_DECISION :: string where
  "PHASE_NAMES_WRAP_DECISION = ''Wrap Decision''"

definition PHASE_NAMES_SMOKE_2 :: string where
  "PHASE_NAMES_SMOKE_2 = ''Smoke Phase 2''"

definition PHASE_NAMES_REST :: string where
  "PHASE_NAMES_REST = ''Rest''"

definition PHASE_NAMES_SERVE :: string where
  "PHASE_NAMES_SERVE = ''Serve Window''"

text \<open>
  \<^verbatim>\<open>PHASE_CONFIDENCE\<close> is keyed by the phase name; a name that is not a key reads as
  \<^verbatim>\<open>undefined\<close>, here \<open>None\<close>.
\<close>

definition PHASE_CONFIDENCE :: "string \<Rightarrow> Confidence option" where
  "PHASE_CONFIDENCE =
     map_of
       [(PHASE_NAMES_PREP, HIGH),
        (PHASE_NAMES_PREHEAT, HIGH),
        (PHASE_NAMES_SMOKE_1, MEDIUM),
        (PHASE_NAMES_STALL, LOW),
        (PHASE_NAMES_WRAP_DECISION, MEDIUM),
        (PHASE_NAMES_SMOKE_2, MEDIUM),
        (PHASE_NAMES_REST, HIGH),
        (PHASE_NAMES_SERVE, HIGH)]"

definition PREP_TIME_MINUTES :: MinMax where
  "PREP_TIME_MINUTES = \<lparr>minR = 30, maxR = 45\<rparr>"

definition PREHEAT_TIME_MINUTES :: MinMax where
  "PREHEAT_TIME_MINUTES = \<lparr>minR = 15, maxR = 30\<rparr>"

fun REST_TIME_MINUTES :: "MeatCut \<Rightarrow> MinMax" where
  "REST_TIME_MINUTES BRISKET = \<lparr>minR = 60, maxR = 120\<rparr>"
| "REST_TIME_MINUTES PORK_SHOULDER = \<lparr>minR = 45, maxR = 90\<rparr>"
| "REST_TIME_MINUTES SPARE_RIBS = \<lparr>minR = 10, maxR = 20\<rparr>"
| "REST_TIME_MINUTES BABY_BACK_RIBS = \<lparr>minR = 10, maxR = 15\<rparr>"
| "REST_TIME_MINUTES BEEF_RIBS = \<lparr>minR = 30, maxR = 60\<rparr>"

section \<open>Plan input, phases and plans\<close>

record CookPlanInput =
  meatCut :: MeatCut
  weightLbs :: number
  smokerType :: SmokerType
  smokerTempF :: number
  wrapMethod :: WrapMethod
  serveTime :: Date
  ambientTempF :: "number option"
  altitude :: "number option"

text \<open>
  The order index is not a field of a phase while the list is assembled; the last step
  of the generator writes it, so it is \<open>None\<close> until then.
\<close>

record PhaseDefinition =
  name :: string
  startTime :: Date
  endTime :: Date
  durationRange :: MinMax
  confidence :: "Confidence option"
  notes' :: Note
  order :: "nat option"

record DateRange =
  earliest :: Date
  latest :: Date

record CookPlan =
  phases :: "PhaseDefinition list"
  predictedFinishTime :: Date
  confidenceRange :: DateRange
  overallConfidence :: number
  recommendedStartTime :: Date

text \<open>
  The ranges the request schema \<^verbatim>\<open>planCookSchema\<close> (\<^verbatim>\<open>routes/cooks.ts\<close>) and the
  \<^verbatim>\<open>VALIDATION\<close> table admit: weight 0.5 to 30 lb, smoker temperature 175 to 400,
  ambient temperature -20 to 120 and altitude 0 to 15000 when given.
\<close>

definition in_range :: "number \<Rightarrow> number \<Rightarrow> number option \<Rightarrow> bool" where
  "in_range lo hi v = (case v of None \<Rightarrow> True | Some x \<Rightarrow> lo \<le> x \<and> x \<le> hi)"

definition planCookSchema :: "CookPlanInput \<Rightarrow> bool" where
  "planCookSchema input =
     (1 / 2 \<le> weightLbs input \<and> weightLbs input \<le> 30 \<and>
      175 \<le> smokerTempF input \<and> smokerTempF input \<le> 400 \<and>
      in_range (- 20) 120 (ambientTempF input) \<and>
      in_range 0 15000 (altitude input))"

section \<open>The plan generator\<close>

definition getEnvironmentalMultiplier :: "number option \<Rightarrow> number option \<Rightarrow> number" where
  "getEnvironmentalMultiplier ambientTempF' altitude' =
     (let multiplier = 1;
          multiplier =
            (case ambientTempF' of
               None \<Rightarrow> multiplier
             | Some t \<Rightarrow>
                 if t < coldAmbient ENVIRONMENTAL_THRESHOLDS
                 then multiplier * coldAmbient ENVIRONMENTAL_MULTIPLIERS
                 else if t > hotAmbient ENVIRONMENTAL_THRESHOLDS
                 then multiplier * hotAmbient ENVIRONMENTAL_MULTIPLIERS
                 else multiplier);
          multiplier =
            (case altitude' of
               None \<Rightarrow> multiplier
             | Some h \<Rightarrow>
                 if h > highAltitude ENVIRONMENTAL_THRESHOLDS
                 then multiplier * highAltitude ENVIRONMENTAL_MULTIPLIERS
                 else multiplier)
      in multiplier)"

definition hasStall :: "MeatCut \<Rightarrow> bool" where
  "hasStall meatCut' = (meatCut' \<in> set (affectedCuts STALL_CONFIG))"

definition calculateBaseCookTime ::
  "MeatCut \<Rightarrow> number \<Rightarrow> SmokerType \<Rightarrow> WrapMethod \<Rightarrow> number option \<Rightarrow> number option \<Rightarrow> MinMax"
where
  "calculateBaseCookTime meatCut' weightLbs' smokerType' wrapMethod' ambientTempF' altitude' =
     (let baseTime = BASE_COOK_TIMES meatCut';
          smokerFactor = SMOKER_MULTIPLIERS smokerType';
          envMultiplier = getEnvironmentalMultiplier ambientTempF' altitude';
          minTime = (if perPound baseTime then minR baseTime * weightLbs' else minR baseTime);
          maxTime = (if perPound baseTime then maxR baseTime * weightLbs' else maxR baseTime);
          minTime = minTime * multiplier smokerFactor;
          maxTime = maxTime * multiplier smokerFactor;
          variance = maxTime - minTime;
          adjustedVariance = variance * varianceMultiplier smokerFactor;
          midpoint = (minTime + maxTime) / 2;
          minTime = midpoint - adjustedVariance / 2;
          maxTime = midpoint + adjustedVariance / 2;
          minTime = minTime * envMultiplier;
          maxTime = maxTime * envMultiplier
      in \<lparr>minR = math_round minTime, maxR = math_round maxTime\<rparr>)"

definition calculateStallDuration :: "MeatCut \<Rightarrow> WrapMethod \<Rightarrow> MinMax option" where
  "calculateStallDuration meatCut' wrapMethod' =
     (if \<not> hasStall meatCut' then None
      else
        (let min' = minR (durationMinutes STALL_CONFIG);
             max' = maxR (durationMinutes STALL_CONFIG);
             min' = (if wrapMethod' \<noteq> NONE then min' * wrapReductionFactor STALL_CONFIG else min');
             max' = (if wrapMethod' \<noteq> NONE then max' * wrapReductionFactor STALL_CONFIG else max')
         in Some \<lparr>minR = math_round min', maxR = math_round max'\<rparr>))"

definition calculateOverallConfidence :: "PhaseDefinition list \<Rightarrow> SmokerType \<Rightarrow> number" where
  "calculateOverallConfidence phases' smokerType' =
     (let smokerFactor = SMOKER_MULTIPLIERS smokerType';
          baseConfidence = 100 - (varianceMultiplier smokerFactor - 1) * 50;
          lowConfidenceCount = length (filter (\<lambda>p. confidence p = Some LOW) phases');
          baseConfidence = baseConfidence - of_nat lowConfidenceCount * 10;
          mediumConfidenceCount = length (filter (\<lambda>p. confidence p = Some MEDIUM) phases');
          baseConfidence = baseConfidence - of_nat mediumConfidenceCount * 5
      in max 20 (min 100 (math_round baseConfidence)))"

text \<open>
  Text helpers for the notes.  The degree sign and the warning sign of the source are
  written as their UTF-8 bytes; \<^verbatim>\<open>toLowerCase\<close> is needed on ASCII letters only, and
  \<^verbatim>\<open>replace\<close> with a string pattern replaces the first occurrence.
\<close>

definition degree_sign :: string where
  "degree_sign = [CHR 0xC2, CHR 0xB0]"

definition warning_sign :: string where
  "warning_sign = [CHR 0xE2, CHR 0x9A, CHR 0xA0, CHR 0xEF, CHR 0xB8, CHR 0x8F]"

definition toLowerCase :: "string \<Rightarrow> string" where
  "toLowerCase s =
     map (\<lambda>c. if 65 \<le> (of_char c :: nat) \<and> (of_char c :: nat) \<le> 90
              then char_of (of_char c + 32 :: nat) else c) s"

fun replace_first :: "char \<Rightarrow> char \<Rightarrow> string \<Rightarrow> string" where
  "replace_first a b [] = []"
| "replace_first a b (c # cs) = (if c = a then b # cs else c # replace_first a b cs)"

text \<open>
  \<^verbatim>\<open>generateCookPlan\<close>.  The source builds \<^verbatim>\<open>phases\<close> with \<^verbatim>\<open>unshift\<close>, which is
  \<open>#\<close> here; \<^verbatim>\<open>phases[0]?.startTime || smoke2End\<close> reads the head of the list and falls
  back to \<^verbatim>\<open>smoke2End\<close> on an empty list (a \<^verbatim>\<open>Date\<close> object is never falsy); the final
  \<^verbatim>\<open>forEach\<close> writes each phase's index into its \<^verbatim>\<open>order\<close>.
\<close>

definition generateCookPlan :: "CookPlanInput \<Rightarrow> CookPlan" where
  "generateCookPlan input =
     (let phases0 = [];
          serveDate = serveTime input;
          cookTimeRange =
            calculateBaseCookTime (meatCut input) (weightLbs input) (smokerType input)
              (wrapMethod input) (ambientTempF input) (altitude input);
          stallDuration = calculateStallDuration (meatCut input) (wrapMethod input);
          restTime = REST_TIME_MINUTES (meatCut input);
          currentTime = serveDate;
          serveWindowStart = new_Date (getTime currentTime - 30 * 60000);
          serveWindowEnd = new_Date (getTime currentTime + 30 * 60000);
          restEnd = serveWindowStart;
          restStart = new_Date (getTime restEnd - maxR restTime * 60000);
          phases1 =
            \<lparr>name = PHASE_NAMES_REST, startTime = restStart, endTime = restEnd,
             durationRange = restTime,
             confidence = PHASE_CONFIDENCE PHASE_NAMES_REST,
             notes' = [Lit ''Rest for '', Num (minR restTime), Lit ''-'', Num (maxR restTime),
                       Lit '' minutes minimum''],
             order = None\<rparr> # phases0;
          predictedFinishTime' = restStart;
          hasPrimaryStall = hasStall (meatCut input);
          smoke2End = restStart;
          (smoke1Duration, smoke2Duration) =
            (if hasPrimaryStall \<and> stallDuration \<noteq> None
             then (\<lparr>minR = math_round (minR cookTimeRange * (4 / 10)),
                    maxR = math_round (maxR cookTimeRange * (4 / 10))\<rparr>,
                   \<lparr>minR = math_round (minR cookTimeRange * (3 / 10)),
                    maxR = math_round (maxR cookTimeRange * (3 / 10))\<rparr>)
             else (cookTimeRange, \<lparr>minR = 0, maxR = 0\<rparr>));
          phases2 =
            (if minR smoke2Duration > 0
             then
               (let smoke2Start = new_Date (getTime smoke2End - maxR smoke2Duration * 60000);
                    phases_a =
                      \<lparr>name = PHASE_NAMES_SMOKE_2, startTime = smoke2Start, endTime = smoke2End,
                       durationRange = smoke2Duration,
                       confidence = PHASE_CONFIDENCE PHASE_NAMES_SMOKE_2,
                       notes' =
                         (if wrapMethod input \<noteq> NONE
                          then [Lit ''Wrapped in '',
                                Lit (replace_first CHR ''_'' CHR '' ''
                                       (toLowerCase (WrapMethod_value (wrapMethod input))))]
                          else [Lit ''Unwrapped cook continues'']),
                       order = None\<rparr> # phases1;
                    phases_b =
                      (if wrapMethod input \<noteq> NONE
                       then
                         \<lparr>name = PHASE_NAMES_WRAP_DECISION, startTime = smoke2Start,
                          endTime = smoke2Start,
                          durationRange = \<lparr>minR = 0, maxR = 0\<rparr>,
                          confidence = PHASE_CONFIDENCE PHASE_NAMES_WRAP_DECISION,
                          notes' =
                            [Lit ''Wrap when internal temp reaches '',
                             Num (startTempF STALL_CONFIG), Lit ''-'',
                             Num (endTempF STALL_CONFIG), Lit (degree_sign @ ''F'')],
                          order = None\<rparr> # phases_a
                       else phases_a);
                    phases_c =
                      (case stallDuration of
                         None \<Rightarrow> phases_b
                       | Some stallDuration' \<Rightarrow>
                           (let stallEnd = smoke2Start;
                                stallStart =
                                  new_Date (getTime stallEnd - maxR stallDuration' * 60000)
                            in \<lparr>name = PHASE_NAMES_STALL, startTime = stallStart,
                                endTime = stallEnd,
                                durationRange = stallDuration',
                                confidence = PHASE_CONFIDENCE PHASE_NAMES_STALL,
                                notes' =
                                  [Lit (warning_sign
                                        @ '' High variance - internal temp plateaus at ''),
                                   Num (startTempF STALL_CONFIG), Lit ''-'',
                                   Num (endTempF STALL_CONFIG), Lit (degree_sign @ ''F'')],
                                order = None\<rparr> # phases_b))
                in phases_c)
             else phases1);
          smoke1End = (case phases2 of [] \<Rightarrow> smoke2End | p # _ \<Rightarrow> startTime p);
          smoke1Start = new_Date (getTime smoke1End - maxR smoke1Duration * 60000);
          phases3 =
            \<lparr>name = PHASE_NAMES_SMOKE_1, startTime = smoke1Start, endTime = smoke1End,
             durationRange = smoke1Duration,
             confidence = PHASE_CONFIDENCE PHASE_NAMES_SMOKE_1,
             notes' = [Lit ''Smoke at '', Num (smokerTempF input), Lit (degree_sign @ ''F'')],
             order = None\<rparr> # phases2;
          preheatEnd = smoke1Start;
          preheatStart = new_Date (getTime preheatEnd - maxR PREHEAT_TIME_MINUTES * 60000);
          phases4 =
            \<lparr>name = PHASE_NAMES_PREHEAT, startTime = preheatStart, endTime = preheatEnd,
             durationRange = PREHEAT_TIME_MINUTES,
             confidence = PHASE_CONFIDENCE PHASE_NAMES_PREHEAT,
             notes' = [Lit ''Preheat smoker to '', Num (smokerTempF input),
                       Lit (degree_sign @ ''F'')],
             order = None\<rparr> # phases3;
          prepEnd = preheatStart;
          prepStart = new_Date (getTime prepEnd - maxR PREP_TIME_MINUTES * 60000);
          phases5 =
            \<lparr>name = PHASE_NAMES_PREP, startTime = prepStart, endTime = prepEnd,
             durationRange = PREP_TIME_MINUTES,
             confidence = PHASE_CONFIDENCE PHASE_NAMES_PREP,
             notes' = [Lit ''Trim fat, apply rub, bring to room temperature''],
             order = None\<rparr> # phases4;
          totalVarianceMinutes =
            (maxR cookTimeRange - minR cookTimeRange)
            + (case stallDuration of
                 None \<Rightarrow> 0
               | Some stallDuration' \<Rightarrow> maxR stallDuration' - minR stallDuration');
          confidenceRange' =
            \<lparr>earliest = new_Date (getTime predictedFinishTime' - totalVarianceMinutes * 30000),
             latest = new_Date (getTime predictedFinishTime' + totalVarianceMinutes * 30000)\<rparr>;
          overallConfidence' = calculateOverallConfidence phases5 (smokerType input);
          phases6 = map (\<lambda>(index, phase). phase\<lparr>order := Some index\<rparr>) (enumerate 0 phases5)
      in \<lparr>phases = phases6,
          predictedFinishTime = predictedFinishTime',
          confidenceRange = confidenceRange',
          overallConfidence = overallConfidence',
          recommendedStartTime = prepStart\<rparr>)"

section \<open>The prediction updater\<close>





section \<open>Notions used by the properties\<close>

text \<open>
  The range of \<^verbatim>\<open>calculateBaseCookTime\<close> after the smoker and variance multipliers,
  before the environmental multiplier and the rounding (the source's \<^verbatim>\<open>minTime\<close> and
  \<^verbatim>\<open>maxTime\<close> at the comment "Apply environmental multiplier").
\<close>

definition scaledRange :: "MeatCut \<Rightarrow> number \<Rightarrow> SmokerType \<Rightarrow> MinMax" where
  "scaledRange meatCut' weightLbs' smokerType' =
     (let baseTime = BASE_COOK_TIMES meatCut';
          smokerFactor = SMOKER_MULTIPLIERS smokerType';
          minTime = (if perPound baseTime then minR baseTime * weightLbs' else minR baseTime);
          maxTime = (if perPound baseTime then maxR baseTime * weightLbs' else maxR baseTime);
          minTime = minTime * multiplier smokerFactor;
          maxTime = maxTime * multiplier smokerFactor;
          variance = maxTime - minTime;
          adjustedVariance = variance * varianceMultiplier smokerFactor;
          midpoint = (minTime + maxTime) / 2
      in \<lparr>minR = midpoint - adjustedVariance / 2, maxR = midpoint + adjustedVariance / 2\<rparr>)"

text \<open>The two ranges \<^verbatim>\<open>generateCookPlan\<close> computes first, as functions of its input.\<close>

definition cookTimeRange :: "CookPlanInput \<Rightarrow> MinMax" where
  "cookTimeRange input =
     calculateBaseCookTime (meatCut input) (weightLbs input) (smokerType input)
       (wrapMethod input) (ambientTempF input) (altitude input)"

definition stallDuration :: "CookPlanInput \<Rightarrow> MinMax option" where
  "stallDuration input = calculateStallDuration (meatCut input) (wrapMethod input)"

text \<open>
  The stall range \<^verbatim>\<open>calculateStallDuration\<close> returns for a stall-affected cut, and the
  total variance \<^verbatim>\<open>generateCookPlan\<close> computes from the two ranges.
\<close>

definition stallRange :: "WrapMethod \<Rightarrow> MinMax" where
  "stallRange wrapMethod' =
     (let min' = minR (durationMinutes STALL_CONFIG);
          max' = maxR (durationMinutes STALL_CONFIG);
          min' = (if wrapMethod' \<noteq> NONE then min' * wrapReductionFactor STALL_CONFIG else min');
          max' = (if wrapMethod' \<noteq> NONE then max' * wrapReductionFactor STALL_CONFIG else max')
      in \<lparr>minR = math_round min', maxR = math_round max'\<rparr>)"

definition totalVarianceMinutes :: "CookPlanInput \<Rightarrow> number" where
  "totalVarianceMinutes input =
     (maxR (cookTimeRange input) - minR (cookTimeRange input))
     + (case stallDuration input of None \<Rightarrow> 0 | Some sd \<Rightarrow> maxR sd - minR sd)"

text \<open>
  Three patterns of the generator, named: the date \<open>m\<close> minutes before \<open>d\<close>
  (\<^verbatim>\<open>new Date(d.getTime() - m * 60000)\<close>), the object literal a phase is created from
  (its confidence is looked up under its name, its order is not yet written), and the
  final numbering of the phases.
\<close>

definition minutesBefore :: "Date \<Rightarrow> number \<Rightarrow> Date" where
  "minutesBefore d m = new_Date (getTime d - m * 60000)"

definition phaseEntry :: "string \<Rightarrow> Date \<Rightarrow> Date \<Rightarrow> MinMax \<Rightarrow> Note \<Rightarrow> PhaseDefinition" where
  "phaseEntry n s e d t =
     \<lparr>name = n, startTime = s, endTime = e, durationRange = d,
      confidence = PHASE_CONFIDENCE n, notes' = t, order = None\<rparr>"

definition assignOrder :: "PhaseDefinition list \<Rightarrow> PhaseDefinition list" where
  "assignOrder ps = map (\<lambda>(index, phase). phase\<lparr>order := Some index\<rparr>) (enumerate 0 ps)"

text \<open>Each phase ends where the next one starts.\<close>

fun contiguous :: "PhaseDefinition list \<Rightarrow> bool" where
  "contiguous [] = True"
| "contiguous [p] = True"
| "contiguous (p # q # ps) = (endTime p = startTime q \<and> contiguous (q # ps))"

text \<open>A duration range that is not degenerate: \<open>0 \<le> min \<le> max\<close>.\<close>

definition goodRange :: "MinMax \<Rightarrow> bool" where
  "goodRange r = (0 \<le> minR r \<and> minR r \<le> maxR r)"

text \<open>
  A phase with the note of the two phases that quote the smoker temperature blanked.
\<close>

definition withoutTempNotes :: "PhaseDefinition \<Rightarrow> PhaseDefinition" where
  "withoutTempNotes p =
     (if name p = PHASE_NAMES_SMOKE_1 \<or> name p = PHASE_NAMES_PREHEAT
      then p\<lparr>notes' := []\<rparr> else p)"

text \<open>
  A request used to instantiate the theorems: a 10 lb brisket on an electric smoker at
  225 degrees, unwrapped, no ambient data, served at time value \<open>100000000\<close>.
\<close>

definition example_input :: CookPlanInput where
  "example_input =
     \<lparr>meatCut = BRISKET, weightLbs = 10, smokerType = ELECTRIC, smokerTempF = 225,
      wrapMethod = NONE, serveTime = 100000000, ambientTempF = None, altitude = None\<rparr>"

text \<open>
  A second request: 3 lb of baby back ribs on a pellet smoker, wrapped in foil, on a
  hot day at altitude.
\<close>

definition example_ribs :: CookPlanInput where
  "example_ribs =
     \<lparr>meatCut = BABY_BACK_RIBS, weightLbs = 3, smokerType = PELLET, smokerTempF = 250,
      wrapMethod = FOIL, serveTime = 100000000, ambientTempF = Some 95, altitude = Some 6000\<rparr>"

section \<open>Rounding and dates\<close>

lemma math_round_Ints: "math_round x \<in> \<int>"
  by (simp add: math_round_def)

lemma math_round_mono: "x \<le> y \<Longrightarrow> math_round x \<le> math_round y"
  by (simp add: math_round_def floor_mono)

lemma math_round_nonneg: "0 \<le> x \<Longrightarrow> 0 \<le> math_round x"
  by (simp add: math_round_def)

lemma math_round_pos: "1 / 2 \<le> x \<Longrightarrow> 0 < math_round x"
proof -
  assume "1 / 2 \<le> x"
  then have "(1::int) \<le> \<lfloor>x + 1 / 2\<rfloor>" by (simp add: le_floor_iff)
  then have "(0::int) < \<lfloor>x + 1 / 2\<rfloor>" by linarith
  then show ?thesis by (simp add: math_round_def)
qed

lemma math_round_ge2: "3 / 2 \<le> x \<Longrightarrow> 2 \<le> math_round x"
proof -
  assume "3 / 2 \<le> x"
  then have "(2::int) \<le> \<lfloor>x + 1 / 2\<rfloor>" by (simp add: le_floor_iff)
  then have "(of_int 2 :: rat) \<le> of_int \<lfloor>x + 1 / 2\<rfloor>" by (simp only: of_int_le_iff)
  then show ?thesis by (simp add: math_round_def)
qed




lemma new_Date_Ints: "x \<in> \<int> \<Longrightarrow> getTime (new_Date x) = x"
  by (auto simp: new_Date_def getTime_def elim!: Ints_cases)

lemma new_Date_le: "x \<le> getTime d \<Longrightarrow> new_Date x \<le> d"
  by (auto simp: new_Date_def getTime_def floor_le_iff ceiling_le_iff
      intro: order_trans less_le_trans)

lemma new_Date_back: "0 \<le> m \<Longrightarrow> new_Date (getTime d - m * 60000) \<le> d"
  by (rule new_Date_le) simp

lemma minutesBefore_le: "0 \<le> m \<Longrightarrow> minutesBefore d m \<le> d"
  unfolding minutesBefore_def by (rule new_Date_back)



section \<open>The cook-time and stall ranges\<close>

lemma env_bounds: "92 / 100 \<le> getEnvironmentalMultiplier a alt"
  by (simp add: getEnvironmentalMultiplier_def ENVIRONMENTAL_THRESHOLDS_def
      ENVIRONMENTAL_MULTIPLIERS_def Let_def split: option.splits)

lemma env_nonneg: "0 \<le> getEnvironmentalMultiplier a alt"
  using env_bounds [of a alt] by linarith

lemma calculateBaseCookTime_scaled:
  "calculateBaseCookTime c w s wr a alt =
     \<lparr>minR = math_round (minR (scaledRange c w s) * getEnvironmentalMultiplier a alt),
      maxR = math_round (maxR (scaledRange c w s) * getEnvironmentalMultiplier a alt)\<rparr>"
  by (simp add: calculateBaseCookTime_def scaledRange_def Let_def)

lemma scaled_min_le_max: "0 \<le> w \<Longrightarrow> minR (scaledRange c w s) \<le> maxR (scaledRange c w s)"
  by (cases c; cases s; simp add: scaledRange_def Let_def)

lemma scaled_min_ge: "1 / 2 \<le> w \<Longrightarrow> 25 \<le> minR (scaledRange c w s)"
  by (cases c; cases s; simp add: scaledRange_def Let_def)


lemma cook_min_le_max:
  assumes "0 \<le> w"
  shows "minR (calculateBaseCookTime c w s wr a alt)
           \<le> maxR (calculateBaseCookTime c w s wr a alt)"
  by (simp add: calculateBaseCookTime_scaled math_round_mono mult_right_mono
      scaled_min_le_max [OF assms] env_nonneg)

lemma cook_min_ge2:
  assumes "1 / 2 \<le> w"
  shows "2 \<le> minR (calculateBaseCookTime c w s wr a alt)"
proof -
  have "25 * (92 / 100) \<le> minR (scaledRange c w s) * getEnvironmentalMultiplier a alt"
    using scaled_min_ge [OF assms, of c s] by (intro mult_mono env_bounds) simp_all
  then have "3 / 2 \<le> minR (scaledRange c w s) * getEnvironmentalMultiplier a alt" by simp
  then show ?thesis
    by (simp add: calculateBaseCookTime_scaled math_round_ge2)
qed

lemma cook_max_nonneg:
  assumes "1 / 2 \<le> w"
  shows "0 \<le> maxR (calculateBaseCookTime c w s wr a alt)"
proof -
  have "0 \<le> w" using assms by simp
  then have "minR (calculateBaseCookTime c w s wr a alt)
               \<le> maxR (calculateBaseCookTime c w s wr a alt)"
    by (rule cook_min_le_max)
  with cook_min_ge2 [OF assms, of c s wr a alt] show ?thesis by simp
qed


lemma cook_good:
  assumes "planCookSchema input"
  shows "goodRange (cookTimeRange input)"
proof -
  have w: "1 / 2 \<le> weightLbs input" using assms by (simp add: planCookSchema_def)
  then have "0 \<le> weightLbs input" by simp
  then have "minR (cookTimeRange input) \<le> maxR (cookTimeRange input)"
    unfolding cookTimeRange_def by (rule cook_min_le_max)
  moreover have "2 \<le> minR (cookTimeRange input)"
    unfolding cookTimeRange_def using w by (rule cook_min_ge2)
  ultimately show ?thesis by (simp add: goodRange_def)
qed

lemma hasStall_simps:
  "hasStall BRISKET" "hasStall PORK_SHOULDER" "\<not> hasStall SPARE_RIBS"
  "\<not> hasStall BABY_BACK_RIBS" "\<not> hasStall BEEF_RIBS"
  by (simp_all add: hasStall_def STALL_CONFIG_def)

lemma stall_None: "calculateStallDuration c wr = None \<longleftrightarrow> \<not> hasStall c"
  by (simp add: calculateStallDuration_def Let_def)

lemma stall_Some: "hasStall c \<Longrightarrow> calculateStallDuration c w = Some (stallRange w)"
  by (simp add: calculateStallDuration_def stallRange_def Let_def)

lemma stallRange_good: "goodRange (stallRange w)"
  by (simp add: stallRange_def STALL_CONFIG_def Let_def goodRange_def math_round_def)

lemma stall_None_eq: "\<not> hasStall c \<Longrightarrow> calculateStallDuration c w = None"
  by (simp add: stall_None)

lemma rest_max_nonneg: "0 \<le> maxR (REST_TIME_MINUTES c)"
  by (cases c) simp_all

lemma smoke2_present:
  assumes "planCookSchema input"
  shows "0 < math_round (minR (cookTimeRange input) * (3 / 10))"
proof -
  have "1 / 2 \<le> weightLbs input" using assms by (simp add: planCookSchema_def)
  then have "2 \<le> minR (cookTimeRange input)"
    unfolding cookTimeRange_def by (rule cook_min_ge2)
  then have "1 / 2 \<le> minR (cookTimeRange input) * (3 / 10)" by simp
  then show ?thesis by (rule math_round_pos)
qed


lemma stallRange_Ints: "minR (stallRange w) \<in> \<int>" "maxR (stallRange w) \<in> \<int>"
  by (simp_all add: stallRange_def Let_def math_round_Ints)

lemma cook_Ints: "minR (cookTimeRange input) \<in> \<int>" "maxR (cookTimeRange input) \<in> \<int>"
  by (simp_all add: cookTimeRange_def calculateBaseCookTime_scaled math_round_Ints)

lemma totalVariance_Ints: "totalVarianceMinutes input \<in> \<int>"
  by (cases "hasStall (meatCut input)")
     (simp_all add: totalVarianceMinutes_def stallDuration_def stall_Some stall_None_eq
        cook_Ints stallRange_Ints)

lemma totalVariance_nonneg:
  assumes "planCookSchema input"
  shows "0 \<le> totalVarianceMinutes input"
proof -
  have c: "minR (cookTimeRange input) \<le> maxR (cookTimeRange input)"
    using cook_good [OF assms] by (simp add: goodRange_def)
  have s: "minR (stallRange (wrapMethod input)) \<le> maxR (stallRange (wrapMethod input))"
    using stallRange_good [of "wrapMethod input"] by (simp add: goodRange_def)
  show ?thesis using c s
    by (cases "hasStall (meatCut input)")
       (simp_all add: totalVarianceMinutes_def stallDuration_def stall_Some stall_None_eq)
qed

section \<open>The assembled phase list\<close>

lemmas PHASE_NAMES_defs =
  PHASE_NAMES_PREP_def PHASE_NAMES_PREHEAT_def PHASE_NAMES_SMOKE_1_def
  PHASE_NAMES_STALL_def PHASE_NAMES_WRAP_DECISION_def PHASE_NAMES_SMOKE_2_def
  PHASE_NAMES_REST_def PHASE_NAMES_SERVE_def

lemma names_neq:
  "PHASE_NAMES_PREP \<noteq> PHASE_NAMES_PREHEAT" "PHASE_NAMES_PREP \<noteq> PHASE_NAMES_SMOKE_1"
  "PHASE_NAMES_PREP \<noteq> PHASE_NAMES_STALL" "PHASE_NAMES_PREP \<noteq> PHASE_NAMES_WRAP_DECISION"
  "PHASE_NAMES_PREP \<noteq> PHASE_NAMES_SMOKE_2" "PHASE_NAMES_PREP \<noteq> PHASE_NAMES_REST"
  "PHASE_NAMES_PREHEAT \<noteq> PHASE_NAMES_PREP" "PHASE_NAMES_PREHEAT \<noteq> PHASE_NAMES_SMOKE_1"
  "PHASE_NAMES_PREHEAT \<noteq> PHASE_NAMES_STALL" "PHASE_NAMES_PREHEAT \<noteq> PHASE_NAMES_WRAP_DECISION"
  "PHASE_NAMES_PREHEAT \<noteq> PHASE_NAMES_SMOKE_2" "PHASE_NAMES_PREHEAT \<noteq> PHASE_NAMES_REST"
  "PHASE_NAMES_SMOKE_1 \<noteq> PHASE_NAMES_PREP" "PHASE_NAMES_SMOKE_1 \<noteq> PHASE_NAMES_PREHEAT"
  "PHASE_NAMES_SMOKE_1 \<noteq> PHASE_NAMES_STALL" "PHASE_NAMES_SMOKE_1 \<noteq> PHASE_NAMES_WRAP_DECISION"
  "PHASE_NAMES_SMOKE_1 \<noteq> PHASE_NAMES_SMOKE_2" "PHASE_NAMES_SMOKE_1 \<noteq> PHASE_NAMES_REST"
  "PHASE_NAMES_STALL \<noteq> PHASE_NAMES_PREP" "PHASE_NAMES_STALL \<noteq> PHASE_NAMES_PREHEAT"
  "PHASE_NAMES_STALL \<noteq> PHASE_NAMES_SMOKE_1" "PHASE_NAMES_STALL \<noteq> PHASE_NAMES_WRAP_DECISION"
  "PHASE_NAMES_STALL \<noteq> PHASE_NAMES_SMOKE_2" "PHASE_NAMES_STALL \<noteq> PHASE_NAMES_REST"
  "PHASE_NAMES_WRAP_DECISION \<noteq> PHASE_NAMES_PREP" "PHASE_NAMES_WRAP_DECISION \<noteq> PHASE_NAMES_PREHEAT"
  "PHASE_NAMES_WRAP_DECISION \<noteq> PHASE_NAMES_SMOKE_1" "PHASE_NAMES_WRAP_DECISION \<noteq> PHASE_NAMES_STALL"
  "PHASE_NAMES_WRAP_DECISION \<noteq> PHASE_NAMES_SMOKE_2" "PHASE_NAMES_WRAP_DECISION \<noteq> PHASE_NAMES_REST"
  "PHASE_NAMES_SMOKE_2 \<noteq> PHASE_NAMES_PREP" "PHASE_NAMES_SMOKE_2 \<noteq> PHASE_NAMES_PREHEAT"
  "PHASE_NAMES_SMOKE_2 \<noteq> PHASE_NAMES_SMOKE_1" "PHASE_NAMES_SMOKE_2 \<noteq> PHASE_NAMES_STALL"
  "PHASE_NAMES_SMOKE_2 \<noteq> PHASE_NAMES_WRAP_DECISION" "PHASE_NAMES_SMOKE_2 \<noteq> PHASE_NAMES_REST"
  "PHASE_NAMES_REST \<noteq> PHASE_NAMES_PREP" "PHASE_NAMES_REST \<noteq> PHASE_NAMES_PREHEAT"
  "PHASE_NAMES_REST \<noteq> PHASE_NAMES_SMOKE_1" "PHASE_NAMES_REST \<noteq> PHASE_NAMES_STALL"
  "PHASE_NAMES_REST \<noteq> PHASE_NAMES_WRAP_DECISION" "PHASE_NAMES_REST \<noteq> PHASE_NAMES_SMOKE_2"
  by (simp_all add: PHASE_NAMES_defs)

lemma phase_confidence_simps:
  "PHASE_CONFIDENCE PHASE_NAMES_PREP = Some HIGH"
  "PHASE_CONFIDENCE PHASE_NAMES_PREHEAT = Some HIGH"
  "PHASE_CONFIDENCE PHASE_NAMES_SMOKE_1 = Some MEDIUM"
  "PHASE_CONFIDENCE PHASE_NAMES_STALL = Some LOW"
  "PHASE_CONFIDENCE PHASE_NAMES_WRAP_DECISION = Some MEDIUM"
  "PHASE_CONFIDENCE PHASE_NAMES_SMOKE_2 = Some MEDIUM"
  "PHASE_CONFIDENCE PHASE_NAMES_REST = Some HIGH"
  by (simp_all add: PHASE_CONFIDENCE_def names_neq)

text \<open>
  The generator read forwards: the dates it computes, earliest last, and the list it
  has assembled when it returns.  Every later proof starts from this form.
\<close>

lemma generateCookPlan_forward:
  "generateCookPlan input =
     (let cook = cookTimeRange input;
          rest = REST_TIME_MINUTES (meatCut input);
          split = (hasStall (meatCut input) \<and> 0 < math_round (minR cook * (3 / 10)));
          smoke1Duration =
            (if hasStall (meatCut input)
             then \<lparr>minR = math_round (minR cook * (4 / 10)),
                   maxR = math_round (maxR cook * (4 / 10))\<rparr>
             else cook);
          smoke2Duration =
            \<lparr>minR = math_round (minR cook * (3 / 10)), maxR = math_round (maxR cook * (3 / 10))\<rparr>;
          sd = stallRange (wrapMethod input);
          restEnd = minutesBefore (serveTime input) 30;
          restStart = minutesBefore restEnd (maxR rest);
          smoke2Start = minutesBefore restStart (maxR smoke2Duration);
          stallStart = minutesBefore smoke2Start (maxR sd);
          smoke1End = (if split then stallStart else restStart);
          smoke1Start = minutesBefore smoke1End (maxR smoke1Duration);
          preheatStart = minutesBefore smoke1Start 30;
          prepStart = minutesBefore preheatStart 45;
          ps =
            [phaseEntry PHASE_NAMES_PREP prepStart preheatStart PREP_TIME_MINUTES
               [Lit ''Trim fat, apply rub, bring to room temperature''],
             phaseEntry PHASE_NAMES_PREHEAT preheatStart smoke1Start PREHEAT_TIME_MINUTES
               [Lit ''Preheat smoker to '', Num (smokerTempF input), Lit (degree_sign @ ''F'')],
             phaseEntry PHASE_NAMES_SMOKE_1 smoke1Start smoke1End smoke1Duration
               [Lit ''Smoke at '', Num (smokerTempF input), Lit (degree_sign @ ''F'')]]
            @ (if split
               then [phaseEntry PHASE_NAMES_STALL stallStart smoke2Start sd
                       [Lit (warning_sign @ '' High variance - internal temp plateaus at ''),
                        Num (startTempF STALL_CONFIG), Lit ''-'',
                        Num (endTempF STALL_CONFIG), Lit (degree_sign @ ''F'')]]
                    @ (if wrapMethod input \<noteq> NONE
                       then [phaseEntry PHASE_NAMES_WRAP_DECISION smoke2Start smoke2Start
                               \<lparr>minR = 0, maxR = 0\<rparr>
                               [Lit ''Wrap when internal temp reaches '',
                                Num (startTempF STALL_CONFIG), Lit ''-'',
                                Num (endTempF STALL_CONFIG), Lit (degree_sign @ ''F'')]]
                       else [])
                    @ [phaseEntry PHASE_NAMES_SMOKE_2 smoke2Start restStart smoke2Duration
                         (if wrapMethod input \<noteq> NONE
                          then [Lit ''Wrapped in '',
                                Lit (replace_first CHR ''_'' CHR '' ''
                                       (toLowerCase (WrapMethod_value (wrapMethod input))))]
                          else [Lit ''Unwrapped cook continues''])]
               else [])
            @ [phaseEntry PHASE_NAMES_REST restStart restEnd rest
                 [Lit ''Rest for '', Num (minR rest), Lit ''-'', Num (maxR rest),
                  Lit '' minutes minimum'']]
      in \<lparr>phases = assignOrder ps,
          predictedFinishTime = restStart,
          confidenceRange =
            \<lparr>earliest = new_Date (getTime restStart - totalVarianceMinutes input * 30000),
             latest = new_Date (getTime restStart + totalVarianceMinutes input * 30000)\<rparr>,
          overallConfidence = calculateOverallConfidence ps (smokerType input),
          recommendedStartTime = prepStart\<rparr>)"
proof (cases "hasStall (meatCut input)")
  case True
  then show ?thesis
    by (simp add: generateCookPlan_def Let_def stall_Some cookTimeRange_def stallDuration_def
        totalVarianceMinutes_def minutesBefore_def phaseEntry_def assignOrder_def
        PREP_TIME_MINUTES_def PREHEAT_TIME_MINUTES_def)
next
  case False
  then have "calculateStallDuration (meatCut input) (wrapMethod input) = None"
    by (simp add: stall_None)
  with False show ?thesis
    by (simp add: generateCookPlan_def Let_def cookTimeRange_def stallDuration_def
        totalVarianceMinutes_def minutesBefore_def phaseEntry_def assignOrder_def
        PREP_TIME_MINUTES_def PREHEAT_TIME_MINUTES_def)
qed



lemma phase_names:
  "map name (phases (generateCookPlan input)) =
     (if hasStall (meatCut input) \<and> 0 < math_round (minR (cookTimeRange input) * (3 / 10))
      then [PHASE_NAMES_PREP, PHASE_NAMES_PREHEAT, PHASE_NAMES_SMOKE_1, PHASE_NAMES_STALL]
           @ (if wrapMethod input \<noteq> NONE then [PHASE_NAMES_WRAP_DECISION] else [])
           @ [PHASE_NAMES_SMOKE_2, PHASE_NAMES_REST]
      else [PHASE_NAMES_PREP, PHASE_NAMES_PREHEAT, PHASE_NAMES_SMOKE_1, PHASE_NAMES_REST])"
  by (simp add: generateCookPlan_forward Let_def assignOrder_def phaseEntry_def)

lemma phases_contiguous: "contiguous (phases (generateCookPlan input))"
  by (simp add: generateCookPlan_forward Let_def assignOrder_def phaseEntry_def)

lemma phases_forward:
  assumes "planCookSchema input"
  shows "list_all (\<lambda>p. startTime p \<le> endTime p) (phases (generateCookPlan input))"
proof -
  have c: "0 \<le> maxR (cookTimeRange input)"
    using cook_good [OF assms] by (simp add: goodRange_def)
  then have c4: "0 \<le> math_round (maxR (cookTimeRange input) * 2 / 5)"
    by (intro math_round_nonneg) simp
  from c have c3: "0 \<le> math_round (maxR (cookTimeRange input) * 3 / 10)"
    by (intro math_round_nonneg) simp
  have s: "0 \<le> maxR (stallRange (wrapMethod input))"
    using stallRange_good [of "wrapMethod input"] by (simp add: goodRange_def)
  show ?thesis
    by (simp add: generateCookPlan_forward Let_def assignOrder_def phaseEntry_def
        minutesBefore_le c c3 c4 s rest_max_nonneg)
qed

lemma goodRange_part: "goodRange r \<Longrightarrow> 0 \<le> k \<Longrightarrow>
   goodRange \<lparr>minR = math_round (minR r * k), maxR = math_round (maxR r * k)\<rparr>"
  by (simp add: goodRange_def math_round_nonneg math_round_mono mult_right_mono)

lemma phases_good:
  assumes "planCookSchema input"
  shows "list_all (\<lambda>p. goodRange (durationRange p)) (phases (generateCookPlan input))"
proof -
  note c = cook_good [OF assms]
  have c4: "goodRange \<lparr>minR = math_round (minR (cookTimeRange input) * 2 / 5),
                       maxR = math_round (maxR (cookTimeRange input) * 2 / 5)\<rparr>"
    using goodRange_part [OF c, of "2 / 5"] by simp
  have c3: "goodRange \<lparr>minR = math_round (minR (cookTimeRange input) * 3 / 10),
                       maxR = math_round (maxR (cookTimeRange input) * 3 / 10)\<rparr>"
    using goodRange_part [OF c, of "3 / 10"] by simp
  have r: "goodRange (REST_TIME_MINUTES (meatCut input))"
    by (cases "meatCut input") (simp_all add: goodRange_def)
  have z: "goodRange \<lparr>minR = 0, maxR = 0\<rparr>" "goodRange PREP_TIME_MINUTES"
    "goodRange PREHEAT_TIME_MINUTES"
    by (simp_all add: goodRange_def PREP_TIME_MINUTES_def PREHEAT_TIME_MINUTES_def)
  show ?thesis
    by (simp add: generateCookPlan_forward Let_def assignOrder_def phaseEntry_def
        c c3 c4 r z stallRange_good)
qed




lemma count_assignOrder_aux:
  "length (filter (\<lambda>p. confidence p = c)
      (map (\<lambda>(index, phase). phase\<lparr>order := Some index\<rparr>) (enumerate n ps)))
   = length (filter (\<lambda>p. confidence p = c) ps)"
  by (induction ps arbitrary: n) simp_all

lemma overall_assignOrder:
  "calculateOverallConfidence (assignOrder ps) s = calculateOverallConfidence ps s"
  by (simp only: calculateOverallConfidence_def assignOrder_def count_assignOrder_aux)

lemma overall_is: "overallConfidence (generateCookPlan input)
   = calculateOverallConfidence (phases (generateCookPlan input)) (smokerType input)"
  by (simp only: generateCookPlan_forward Let_def CookPlan.select_convs overall_assignOrder)

lemma cookTimeRange_smokerTemp [simp]:
  "cookTimeRange (input\<lparr>smokerTempF := t\<rparr>) = cookTimeRange input"
  by (simp add: cookTimeRange_def)

lemma totalVariance_smokerTemp [simp]:
  "totalVarianceMinutes (input\<lparr>smokerTempF := t\<rparr>) = totalVarianceMinutes input"
  by (simp add: totalVarianceMinutes_def stallDuration_def)

lemma count_conf:
  "length (filter (\<lambda>p. confidence p = c) ps) = length (filter (\<lambda>x. x = c) (map confidence ps))"
  by (induction ps) simp_all

lemma overall_cong:
  assumes "map confidence ps = map confidence qs"
  shows "calculateOverallConfidence ps s = calculateOverallConfidence qs s"
  unfolding calculateOverallConfidence_def count_conf assms ..


lemma contiguous_sorted:
  "contiguous ps \<Longrightarrow> list_all (\<lambda>p. startTime p \<le> endTime p) ps \<Longrightarrow>
   sorted (map startTime ps) \<and> (\<forall>p \<in> set ps. startTime p \<le> endTime (last ps))"
proof (induction ps rule: contiguous.induct)
  case 1
  then show ?case by simp
next
  case (2 p)
  then show ?case by simp
next
  case (3 p q ps)
  then have IH: "sorted (map startTime (q # ps))"
    "\<forall>r \<in> set (q # ps). startTime r \<le> endTime (last (q # ps))"
    by simp_all
  from 3 have pq: "startTime p \<le> startTime q" by simp
  have "\<forall>r \<in> set (q # ps). startTime q \<le> startTime r" using IH(1) by auto
  with pq IH show ?case by fastforce
qed

section \<open>The plan of the example request\<close>



section \<open>Properties of the plan generator\<close>

text \<open>
  C1.  For a request within the validation ranges the returned phases are contiguous
  (each phase ends exactly where the next one starts, an instantaneous phase included),
  their start times never decrease along the list, and the last phase does not end
  before the first one starts.
\<close>

theorem phases_contiguous_ordered:
  assumes "planCookSchema input"
  shows "phases (generateCookPlan input) \<noteq> []
    \<and> contiguous (phases (generateCookPlan input))
    \<and> sorted (map startTime (phases (generateCookPlan input)))
    \<and> startTime (hd (phases (generateCookPlan input)))
        \<le> endTime (last (phases (generateCookPlan input)))"
proof -
  let ?ps = "phases (generateCookPlan input)"
  have ne: "?ps \<noteq> []"
    using phase_names [of input] by (auto split: if_splits)
  have "sorted (map startTime ?ps) \<and> (\<forall>p \<in> set ?ps. startTime p \<le> endTime (last ?ps))"
    using phases_contiguous phases_forward [OF assms] by (rule contiguous_sorted)
  with ne phases_contiguous [of input] show ?thesis by simp
qed

theorem phases_contiguous_ordered_witness:
  "planCookSchema example_input
    \<and> phases (generateCookPlan example_input) \<noteq> []
    \<and> contiguous (phases (generateCookPlan example_input))
    \<and> sorted (map startTime (phases (generateCookPlan example_input)))
    \<and> startTime (hd (phases (generateCookPlan example_input)))
        \<le> endTime (last (phases (generateCookPlan example_input)))"
proof -
  have h: "planCookSchema example_input"
    by (simp add: planCookSchema_def example_input_def in_range_def)
  show ?thesis using h phases_contiguous_ordered [OF h] by simp
qed

text \<open>
  C2.  For a request within the validation ranges the confidence range lies half the
  total variance on each side of the predicted finish time: with the total variance in
  minutes being (cook-time max - cook-time min) plus (stall max - stall min), or plus 0
  when the cut has no stall (\<^const>\<open>totalVarianceMinutes\<close>), the earliest bound is the
  finish time minus half of it, in minutes, and the latest bound the finish time plus half
  of it.  So the finish time lies between the two bounds, inclusive.
\<close>

theorem confidence_range_brackets:
  assumes "planCookSchema input"
  shows "getTime (earliest (confidenceRange (generateCookPlan input)))
      = getTime (predictedFinishTime (generateCookPlan input))
        - totalVarianceMinutes input / 2 * 60000
    \<and> getTime (latest (confidenceRange (generateCookPlan input)))
      = getTime (predictedFinishTime (generateCookPlan input))
        + totalVarianceMinutes input / 2 * 60000
    \<and> earliest (confidenceRange (generateCookPlan input))
        \<le> predictedFinishTime (generateCookPlan input)
    \<and> predictedFinishTime (generateCookPlan input)
        \<le> latest (confidenceRange (generateCookPlan input))
    \<and> (stallDuration input = None) = (\<not> hasStall (meatCut input))"
proof -
  let ?p = "generateCookPlan input"
  let ?tv = "totalVarianceMinutes input"
  have e: "earliest (confidenceRange ?p)
      = new_Date (getTime (predictedFinishTime ?p) - ?tv * 30000)"
    and l: "latest (confidenceRange ?p)
      = new_Date (getTime (predictedFinishTime ?p) + ?tv * 30000)"
    by (simp_all add: generateCookPlan_forward Let_def)
  have i1: "getTime (predictedFinishTime ?p) - ?tv * 30000 \<in> \<int>"
    and i2: "getTime (predictedFinishTime ?p) + ?tv * 30000 \<in> \<int>"
    using totalVariance_Ints [of input] by (simp_all add: getTime_def)
  have ge: "getTime (earliest (confidenceRange ?p)) = getTime (predictedFinishTime ?p) - ?tv * 30000"
    unfolding e using i1 by (rule new_Date_Ints)
  have gl: "getTime (latest (confidenceRange ?p)) = getTime (predictedFinishTime ?p) + ?tv * 30000"
    unfolding l using i2 by (rule new_Date_Ints)
  have nn: "0 \<le> ?tv" using assms by (rule totalVariance_nonneg)
  have "getTime (earliest (confidenceRange ?p)) \<le> getTime (predictedFinishTime ?p)"
    using ge nn by simp
  then have le1: "earliest (confidenceRange ?p) \<le> predictedFinishTime ?p"
    by (simp add: getTime_def)
  have "getTime (predictedFinishTime ?p) \<le> getTime (latest (confidenceRange ?p))"
    using gl nn by simp
  then have le2: "predictedFinishTime ?p \<le> latest (confidenceRange ?p)"
    by (simp add: getTime_def)
  have st: "(stallDuration input = None) = (\<not> hasStall (meatCut input))"
    by (simp add: stallDuration_def stall_None)
  show ?thesis using ge gl le1 le2 st by simp
qed

theorem confidence_range_brackets_witness:
  "planCookSchema example_input
    \<and> getTime (earliest (confidenceRange (generateCookPlan example_input)))
      = getTime (predictedFinishTime (generateCookPlan example_input))
        - totalVarianceMinutes example_input / 2 * 60000
    \<and> getTime (latest (confidenceRange (generateCookPlan example_input)))
      = getTime (predictedFinishTime (generateCookPlan example_input))
        + totalVarianceMinutes example_input / 2 * 60000
    \<and> earliest (confidenceRange (generateCookPlan example_input))
        \<le> predictedFinishTime (generateCookPlan example_input)
    \<and> predictedFinishTime (generateCookPlan example_input)
        \<le> latest (confidenceRange (generateCookPlan example_input))"
proof -
  have h: "planCookSchema example_input"
    by (simp add: planCookSchema_def example_input_def in_range_def)
  show ?thesis using h confidence_range_brackets [OF h] by simp
qed

text \<open>
  C4.  For a request within the validation ranges the plan has a Stall Window exactly
  when the cut is stall-affected, and a Wrap Decision exactly when the wrap method is
  not NONE and the cut is stall-affected.  The names of the phases are in fact fixed by
  these two facts: a cut without stall gets Prep, Preheat, Smoke Phase 1 and Rest only,
  whatever the wrap method, so a single smoke phase and no Stall Window, Wrap Decision
  or Smoke Phase 2.
\<close>

theorem stall_and_wrap_phases:
  assumes "planCookSchema input"
  shows "map name (phases (generateCookPlan input)) =
      (if hasStall (meatCut input)
       then [PHASE_NAMES_PREP, PHASE_NAMES_PREHEAT, PHASE_NAMES_SMOKE_1, PHASE_NAMES_STALL]
            @ (if wrapMethod input \<noteq> NONE then [PHASE_NAMES_WRAP_DECISION] else [])
            @ [PHASE_NAMES_SMOKE_2, PHASE_NAMES_REST]
       else [PHASE_NAMES_PREP, PHASE_NAMES_PREHEAT, PHASE_NAMES_SMOKE_1, PHASE_NAMES_REST])
    \<and> (PHASE_NAMES_STALL \<in> set (map name (phases (generateCookPlan input))))
        = hasStall (meatCut input)
    \<and> (PHASE_NAMES_WRAP_DECISION \<in> set (map name (phases (generateCookPlan input))))
        = (wrapMethod input \<noteq> NONE \<and> hasStall (meatCut input))
    \<and> (PHASE_NAMES_SMOKE_2 \<in> set (map name (phases (generateCookPlan input))))
        = hasStall (meatCut input)"
proof -
  have n: "map name (phases (generateCookPlan input)) =
      (if hasStall (meatCut input)
       then [PHASE_NAMES_PREP, PHASE_NAMES_PREHEAT, PHASE_NAMES_SMOKE_1, PHASE_NAMES_STALL]
            @ (if wrapMethod input \<noteq> NONE then [PHASE_NAMES_WRAP_DECISION] else [])
            @ [PHASE_NAMES_SMOKE_2, PHASE_NAMES_REST]
       else [PHASE_NAMES_PREP, PHASE_NAMES_PREHEAT, PHASE_NAMES_SMOKE_1, PHASE_NAMES_REST])"
    using smoke2_present [OF assms] by (simp only: phase_names) simp
  show ?thesis
    unfolding n by (simp add: names_neq)
qed

theorem stall_and_wrap_phases_witness:
  "planCookSchema (example_input\<lparr>wrapMethod := FOIL\<rparr>)
   \<and> map name (phases (generateCookPlan (example_input\<lparr>wrapMethod := FOIL\<rparr>))) =
       [PHASE_NAMES_PREP, PHASE_NAMES_PREHEAT, PHASE_NAMES_SMOKE_1, PHASE_NAMES_STALL,
        PHASE_NAMES_WRAP_DECISION, PHASE_NAMES_SMOKE_2, PHASE_NAMES_REST]
   \<and> planCookSchema example_ribs
   \<and> map name (phases (generateCookPlan example_ribs)) =
       [PHASE_NAMES_PREP, PHASE_NAMES_PREHEAT, PHASE_NAMES_SMOKE_1, PHASE_NAMES_REST]"
proof -
  have h1: "planCookSchema (example_input\<lparr>wrapMethod := FOIL\<rparr>)"
    by (simp add: planCookSchema_def example_input_def in_range_def)
  have h2: "planCookSchema example_ribs"
    by (simp add: planCookSchema_def example_ribs_def in_range_def)
  have s1: "hasStall (meatCut (example_input\<lparr>wrapMethod := FOIL\<rparr>))"
    by (simp add: example_input_def hasStall_simps)
  have s2: "\<not> hasStall (meatCut example_ribs)"
    by (simp add: example_ribs_def hasStall_simps)
  have w: "wrapMethod (example_input\<lparr>wrapMethod := FOIL\<rparr>) \<noteq> NONE" by simp
  show ?thesis
    using h1 h2 stall_and_wrap_phases [OF h1] stall_and_wrap_phases [OF h2] s1 s2 w
    by simp
qed


text \<open>
  C7.  The predicted finish time of the returned plan is the start time of its Rest
  phase, which is the last phase and the only one of that name; the recommended start
  time is the start time of the first phase, which is Prep & Trim.  This holds for every
  request.
\<close>

theorem finish_and_start_times:
  "phases (generateCookPlan input) \<noteq> []
   \<and> name (hd (phases (generateCookPlan input))) = PHASE_NAMES_PREP
   \<and> startTime (hd (phases (generateCookPlan input)))
       = recommendedStartTime (generateCookPlan input)
   \<and> filter (\<lambda>q. name q = PHASE_NAMES_REST) (phases (generateCookPlan input))
       = [last (phases (generateCookPlan input))]
   \<and> startTime (last (phases (generateCookPlan input)))
       = predictedFinishTime (generateCookPlan input)"
  by (simp add: generateCookPlan_forward Let_def assignOrder_def phaseEntry_def names_neq)


text \<open>
  C9.  For a request within the validation ranges every duration range of the plan has
  \<open>0 \<le> min \<le> max\<close>: the cook-time range, the stall range when there is one, and the
  duration range of each phase; and no phase ends before it starts.
\<close>

theorem duration_ranges_well_formed:
  assumes "planCookSchema input"
  shows "goodRange (cookTimeRange input)
    \<and> (case stallDuration input of None \<Rightarrow> True | Some sd \<Rightarrow> goodRange sd)
    \<and> list_all (\<lambda>p. goodRange (durationRange p) \<and> startTime p \<le> endTime p)
        (phases (generateCookPlan input))"
proof -
  have s: "case stallDuration input of None \<Rightarrow> True | Some sd \<Rightarrow> goodRange sd"
    by (cases "hasStall (meatCut input)")
       (simp_all add: stallDuration_def stall_Some stall_None_eq stallRange_good)
  have "list_all (\<lambda>p. goodRange (durationRange p) \<and> startTime p \<le> endTime p)
        (phases (generateCookPlan input))"
    using phases_good [OF assms] phases_forward [OF assms] by (simp add: list_all_iff)
  with s cook_good [OF assms] show ?thesis by simp
qed

theorem duration_ranges_well_formed_witness:
  "planCookSchema example_ribs
    \<and> goodRange (cookTimeRange example_ribs)
    \<and> (case stallDuration example_ribs of None \<Rightarrow> True | Some sd \<Rightarrow> goodRange sd)
    \<and> list_all (\<lambda>p. goodRange (durationRange p) \<and> startTime p \<le> endTime p)
        (phases (generateCookPlan example_ribs))"
proof -
  have h: "planCookSchema example_ribs"
    by (simp add: planCookSchema_def example_ribs_def in_range_def)
  show ?thesis using h duration_ranges_well_formed [OF h] by simp
qed





text \<open>
  C10.  Changing only the smoker temperature of a request changes nothing in the plan
  but the notes of the Smoke Phase 1 and Preheat phases: every phase keeps its name,
  start time, end time, duration range, confidence and order, every other phase keeps its
  note as well, and the predicted finish time, confidence range, overall confidence and
  recommended start time are the same.
\<close>

theorem smoker_temp_only_in_notes:
  "map (\<lambda>p. (name p, startTime p, endTime p, durationRange p, confidence p, order p))
       (phases (generateCookPlan (input\<lparr>smokerTempF := t\<rparr>)))
     = map (\<lambda>p. (name p, startTime p, endTime p, durationRange p, confidence p, order p))
       (phases (generateCookPlan input))
   \<and> map withoutTempNotes (phases (generateCookPlan (input\<lparr>smokerTempF := t\<rparr>)))
     = map withoutTempNotes (phases (generateCookPlan input))
   \<and> predictedFinishTime (generateCookPlan (input\<lparr>smokerTempF := t\<rparr>))
     = predictedFinishTime (generateCookPlan input)
   \<and> confidenceRange (generateCookPlan (input\<lparr>smokerTempF := t\<rparr>))
     = confidenceRange (generateCookPlan input)
   \<and> overallConfidence (generateCookPlan (input\<lparr>smokerTempF := t\<rparr>))
     = overallConfidence (generateCookPlan input)
   \<and> recommendedStartTime (generateCookPlan (input\<lparr>smokerTempF := t\<rparr>))
     = recommendedStartTime (generateCookPlan input)"
proof -
  let ?p = "generateCookPlan input" and ?q = "generateCookPlan (input\<lparr>smokerTempF := t\<rparr>)"
  have a: "map (\<lambda>p. (name p, startTime p, endTime p, durationRange p, confidence p, order p))
       (phases ?q)
     = map (\<lambda>p. (name p, startTime p, endTime p, durationRange p, confidence p, order p))
       (phases ?p)"
    by (simp add: generateCookPlan_forward Let_def assignOrder_def phaseEntry_def)
  have b: "map withoutTempNotes (phases ?q) = map withoutTempNotes (phases ?p)"
    by (simp add: generateCookPlan_forward Let_def assignOrder_def phaseEntry_def
        withoutTempNotes_def names_neq)
  have c: "predictedFinishTime ?q = predictedFinishTime ?p"
    "confidenceRange ?q = confidenceRange ?p"
    "recommendedStartTime ?q = recommendedStartTime ?p"
    by (simp_all add: generateCookPlan_forward Let_def)
  have "map confidence (phases ?q) = map confidence (phases ?p)"
    by (simp add: generateCookPlan_forward Let_def assignOrder_def phaseEntry_def)
  then have "calculateOverallConfidence (phases ?q) (smokerType input)
      = calculateOverallConfidence (phases ?p) (smokerType input)"
    by (rule overall_cong)
  then have d: "overallConfidence ?q = overallConfidence ?p"
    by (simp add: overall_is)
  show ?thesis using a b c d by simp
qed


section \<open>Properties of the prediction updater\<close>









end
